theory Spec2Isabelle
  imports
    Main
    "HOL-Library.Char_ord"
    "HOL-Library.List_Lexorder"
    "HOL-Library.Product_Lexorder"
    "HOL-Library.Word"
begin

section \<open>Python strings\<close>

text \<open>
  A Python \<open>str\<close> is modelled as a \<^typ>\<open>string\<close> whose characters are the code points
  below 256. On that range the classification functions below agree with CPython's
  \<open>str.isspace\<close>, \<open>str.isdigit\<close> and \<open>str.lower\<close>; the order on strings
  (\<open>List_Lexorder\<close> over \<open>Char_ord\<close>) is Python's code point order.
\<close>

definition isspace :: "char \<Rightarrow> bool" where
  "isspace c \<longleftrightarrow>
     c \<in> set [CHR 0x09, CHR 0x0A, CHR 0x0B, CHR 0x0C, CHR 0x0D, CHR 0x1C, CHR 0x1D,
              CHR 0x1E, CHR 0x1F, CHR 0x20, CHR 0x85, CHR 0xA0]"

definition is_decimal :: "char \<Rightarrow> bool" where
  "is_decimal c \<longleftrightarrow> c \<in> set ''0123456789''"

definition isdigit_char :: "char \<Rightarrow> bool" where
  \<comment> \<open>the superscripts two, three and one are digits for \<open>str.isdigit\<close>, not for \<open>int\<close>\<close>
  "isdigit_char c \<longleftrightarrow> is_decimal c \<or> c \<in> set [CHR 0xB2, CHR 0xB3, CHR 0xB9]"

definition isdigit :: "string \<Rightarrow> bool" where
  "isdigit s \<longleftrightarrow> s \<noteq> [] \<and> list_all isdigit_char s"

definition lower_char :: "char \<Rightarrow> char" where
  "lower_char c =
     (let n = (of_char c :: nat)
      in if (65 \<le> n \<and> n \<le> 90) \<or> (192 \<le> n \<and> n \<le> 222 \<and> n \<noteq> 215)
         then char_of (n + 32) else c)"

definition lower :: "string \<Rightarrow> string" where
  "lower s = map lower_char s"

definition strip :: "string \<Rightarrow> string" where
  "strip s = rev (dropWhile isspace (rev (dropWhile isspace s)))"

definition rstrip_char :: "char \<Rightarrow> string \<Rightarrow> string" where
  "rstrip_char c s = rev (dropWhile (\<lambda>x. x = c) (rev s))"

definition startswith :: "string \<Rightarrow> string \<Rightarrow> bool" where
  "startswith s p \<longleftrightarrow> take (length p) s = p"

definition endswith :: "string \<Rightarrow> string \<Rightarrow> bool" where
  "endswith s p \<longleftrightarrow> length p \<le> length s \<and> drop (length s - length p) s = p"

text \<open>\<open>needle in s\<close>: the substring test.\<close>

fun contains :: "string \<Rightarrow> string \<Rightarrow> bool" where
  "contains [] needle = (needle = [])"
| "contains (c # cs) needle = (startswith (c # cs) needle \<or> contains cs needle)"

text \<open>\<open>s.split(sep)\<close> for a one-character separator; \<open>cur\<close> is the field being read.\<close>

fun split_on :: "char \<Rightarrow> string \<Rightarrow> string \<Rightarrow> string list" where
  "split_on sep cur [] = [cur]"
| "split_on sep cur (c # cs) =
     (if c = sep then cur # split_on sep [] cs else split_on sep (cur @ [c]) cs)"

definition split_sep :: "string \<Rightarrow> char \<Rightarrow> string list" where
  "split_sep s sep = split_on sep [] s"

text \<open>\<open>s.split()\<close>: fields between runs of whitespace, none of them empty.\<close>

fun split_fields :: "string \<Rightarrow> string \<Rightarrow> string list" where
  "split_fields cur [] = (if cur = [] then [] else [cur])"
| "split_fields cur (c # cs) =
     (if isspace c
      then (if cur = [] then split_fields [] cs else cur # split_fields [] cs)
      else split_fields (cur @ [c]) cs)"

definition split :: "string \<Rightarrow> string list" where
  "split s = split_fields [] s"

fun join :: "string \<Rightarrow> string list \<Rightarrow> string" where
  "join sep [] = []"
| "join sep [x] = x"
| "join sep (x # y # ys) = x @ sep @ join sep (y # ys)"

section \<open>Exceptions\<close>

datatype errno = ENOENT | ENOTDIR | EISDIR | EEXIST

datatype py_error =
    ValueError string
  | OSError errno string
  | AdbError string
  | HTTPException nat string

text \<open>
  \<open>int(s)\<close> on a token: decimal digits only, and no more than the interpreter's
  limit of 4300 digits.
\<close>

definition int_max_str_digits :: nat where
  "int_max_str_digits = 4300"

definition digit_val :: "char \<Rightarrow> nat" where
  "digit_val c = of_char c - 48"

definition py_int :: "string \<Rightarrow> py_error + nat" where
  "py_int s =
     (if s \<noteq> [] \<and> list_all is_decimal s \<and> length s \<le> int_max_str_digits
      then Inr (foldl (\<lambda>acc c. 10 * acc + digit_val c) 0 s)
      else Inl (ValueError (''invalid literal for int() with base 10: '' @ s)))"

section \<open>posixpath\<close>

definition isabs :: "string \<Rightarrow> bool" where
  "isabs p \<longleftrightarrow> startswith p ''/''"

definition path_join :: "string \<Rightarrow> string \<Rightarrow> string" where
  "path_join a b =
     (if startswith b ''/'' then b
      else if a = [] \<or> endswith a ''/'' then a @ b
      else a @ ''/'' @ b)"

text \<open>
  \<open>posixpath.split\<close>: the head is \<open>p[:i]\<close> for \<open>i = p.rfind('/') + 1\<close>, without its
  trailing slashes unless it consists of slashes only; the tail is \<open>p[i:]\<close>.
\<close>

definition path_split :: "string \<Rightarrow> string \<times> string" where
  "path_split p =
     (let tail = rev (takeWhile (\<lambda>c. c \<noteq> CHR ''/'') (rev p));
          head = rev (dropWhile (\<lambda>c. c \<noteq> CHR ''/'') (rev p))
      in (if head \<noteq> [] \<and> head \<noteq> replicate (length head) (CHR ''/'')
          then rstrip_char (CHR ''/'') head else head,
          tail))"

definition dirname :: "string \<Rightarrow> string" where
  "dirname p = fst (path_split p)"

definition basename :: "string \<Rightarrow> string" where
  "basename p = snd (path_split p)"

text \<open>The loop of \<open>posixpath.normpath\<close> over the components, and the function.\<close>

definition norm_step :: "nat \<Rightarrow> string list \<Rightarrow> string \<Rightarrow> string list" where
  "norm_step initial_slashes new_comps component =
     (if component = [] \<or> component = ''.'' then new_comps
      else if component \<noteq> ''..'' \<or> (initial_slashes = 0 \<and> new_comps = [])
              \<or> (new_comps \<noteq> [] \<and> last new_comps = ''..'')
      then new_comps @ [component]
      else if new_comps \<noteq> [] then butlast new_comps
      else new_comps)"

definition normpath :: "string \<Rightarrow> string" where
  "normpath path =
     (if path = [] then ''.''
      else
        let initial_slashes =
              (if startswith path ''/''
               then (if startswith path ''//'' \<and> \<not> startswith path ''///'' then 2 else 1)
               else 0);
            comps = foldl (norm_step initial_slashes) [] (split_sep path (CHR ''/''));
            joined = replicate initial_slashes (CHR ''/'') @ join ''/'' comps
        in if joined = [] then ''.'' else joined)"

section \<open>Remote listing: the parser of \<open>ADBService.list_files\<close>\<close>

record file_info =
  fi_name :: string
  fi_path :: string
  fi_is_directory :: bool
  fi_size :: nat
  fi_modified :: "int option"
  fi_permissions :: "string option"
  fi_type :: string

text \<open>
  The body of the loop over the lines of the listing; \<open>None\<close> is \<open>continue\<close>.
\<close>

definition parse_line :: "string \<Rightarrow> string \<Rightarrow> py_error + file_info option" where
  "parse_line path line =
     (if line = [] \<or> startswith line ''total'' then Inr None
      else
        let parts = split line in
        if length parts < 8 then Inr None
        else
          let permissions = parts ! 0;
              size = (if isdigit (parts ! 4) then parts ! 4 else ''0'');
              name = join '' '' (drop 7 parts)
          in
            if name \<in> set [''.'', ''..''] then Inr None
            else
              let is_directory = startswith permissions ''d'' in
              (case (if \<not> is_directory then py_int size else Inr 0) of
                 Inl e \<Rightarrow> Inl e
               | Inr n \<Rightarrow>
                   Inr (Some \<lparr> fi_name = name,
                               fi_path = path_join path name,
                               fi_is_directory = is_directory,
                               fi_size = n,
                               fi_modified = None,
                               fi_permissions = Some permissions,
                               fi_type = (if is_directory then ''directory'' else ''file'') \<rparr>)))"

fun parse_lines :: "string \<Rightarrow> string list \<Rightarrow> py_error + file_info list" where
  "parse_lines path [] = Inr []"
| "parse_lines path (line # rest) =
     (case parse_line path line of
        Inl e \<Rightarrow> Inl e
      | Inr None \<Rightarrow> parse_lines path rest
      | Inr (Some f) \<Rightarrow>
          (case parse_lines path rest of Inl e \<Rightarrow> Inl e | Inr fs \<Rightarrow> Inr (f # fs)))"

text \<open>The key of both \<open>sorted\<close> calls: \<open>(not x['is_directory'], x['name'].lower())\<close>.\<close>

definition listing_key :: "file_info \<Rightarrow> bool \<times> string" where
  "listing_key x = (\<not> fi_is_directory x, lower (fi_name x))"

text \<open>Python's \<open>sorted\<close> is stable, as the insertion sort \<^const>\<open>sort_key\<close> is.\<close>

definition sorted_listing :: "file_info list \<Rightarrow> file_info list" where
  "sorted_listing files = sort_key listing_key files"

definition parse_listing :: "string \<Rightarrow> string \<Rightarrow> py_error + file_info list" where
  "parse_listing path output =
     (case parse_lines path (split_sep (strip output) (CHR 0x0A)) of
        Inl e \<Rightarrow> Inl e
      | Inr files \<Rightarrow> Inr (sorted_listing files))"

section \<open>The local machine and the device bridge\<close>

text \<open>
  The local filesystem is a map from absolute, normalised paths to nodes: a file with its
  content and modification time, or a directory with the names \<open>os.listdir\<close> reports, its
  \<open>st_size\<close> and its modification time. The model has no symbolic links and no
  permissions, so a path is resolved by normalising it against the working directory;
  a name listed in a directory without a node of its own is an entry that \<open>os.stat\<close>
  cannot reach (a dangling link, an entry removed meanwhile).

  The device bridge (\<open>adbutils\<close>) is an external collaborator: what its calls return is
  part of the world, and the state of the device itself is not modelled.

  Every call to the operating system or to the bridge is appended to \<open>trace\<close>.
\<close>

type_synonym bytes = "8 word list"

datatype node = File bytes int | Dir "string list" nat int

record stat_result =
  st_isdir :: bool
  st_size :: nat
  st_mtime :: int

record device =
  dev_serial :: string
  dev_prop_model :: "py_error + string option"
  dev_prop_get :: "string \<Rightarrow> string \<Rightarrow> py_error + string"
  dev_shell :: "string \<Rightarrow> py_error + string"
  dev_sync_pull :: "string \<Rightarrow> py_error + bytes"
  dev_sync_push :: "string \<Rightarrow> bytes \<Rightarrow> py_error + unit"

datatype call =
    OsStat string
  | OsListdir string
  | OsMkdir string
  | OsRead string
  | OsWrite string
  | AdbDeviceList
  | AdbDevice string
  | AdbGetprop string string
  | AdbShell string string
  | AdbSyncPull string string string
  | AdbSyncPush string string string

record world =
  disk :: "string \<Rightarrow> node option"
  cwd :: string
  now :: int
  environ_HOME :: "string option"
  pw_dir_uid :: "string option"
  pw_dir_nam :: "string \<Rightarrow> string option"
  home_dir :: string
  adb_device_list :: "py_error + device list"
  adb_device :: "string \<Rightarrow> py_error + device"
  trace :: "call list"

definition record_call :: "call \<Rightarrow> world \<Rightarrow> world" where
  "record_call c w = w\<lparr>trace := trace w @ [c]\<rparr>"

subsection \<open>\<open>os.path.expanduser\<close> and \<open>os.path.abspath\<close>\<close>

definition expanduser :: "world \<Rightarrow> string \<Rightarrow> string" where
  "expanduser w path =
     (if \<not> startswith path ''~'' then path
      else
        let name = tl (takeWhile (\<lambda>c. c \<noteq> CHR ''/'') path);
            rest = dropWhile (\<lambda>c. c \<noteq> CHR ''/'') path;
            userhome =
              (if name = []
               then (case environ_HOME w of Some h \<Rightarrow> Some h | None \<Rightarrow> pw_dir_uid w)
               else pw_dir_nam w name)
        in case userhome of
             None \<Rightarrow> path
           | Some h \<Rightarrow>
               (let r = rstrip_char (CHR ''/'') h @ rest in if r = [] then ''/'' else r))"

definition abspath :: "world \<Rightarrow> string \<Rightarrow> string" where
  "abspath w path = normpath (if isabs path then path else path_join (cwd w) path)"

subsection \<open>Operating system calls\<close>

definition lookup :: "world \<Rightarrow> string \<Rightarrow> node option" where
  "lookup w p = (if p = [] then None else disk w (abspath w p))"

definition os_stat :: "world \<Rightarrow> string \<Rightarrow> (py_error + stat_result) \<times> world" where
  "os_stat w p =
     ((case lookup w p of
         None \<Rightarrow> Inl (OSError ENOENT p)
       | Some (File c m) \<Rightarrow> Inr \<lparr>st_isdir = False, st_size = length c, st_mtime = m\<rparr>
       | Some (Dir es sz m) \<Rightarrow> Inr \<lparr>st_isdir = True, st_size = sz, st_mtime = m\<rparr>),
      record_call (OsStat p) w)"

text \<open>\<open>os.path.exists\<close> and \<open>os.path.isdir\<close> are \<open>os.stat\<close> with its errors caught.\<close>

definition os_path_exists :: "world \<Rightarrow> string \<Rightarrow> bool \<times> world" where
  "os_path_exists w p =
     (let (r, w1) = os_stat w p in ((case r of Inl e \<Rightarrow> False | Inr st \<Rightarrow> True), w1))"

definition os_path_isdir :: "world \<Rightarrow> string \<Rightarrow> bool \<times> world" where
  "os_path_isdir w p =
     (let (r, w1) = os_stat w p in ((case r of Inl e \<Rightarrow> False | Inr st \<Rightarrow> st_isdir st), w1))"


text \<open>Adding a node under an existing parent directory; used by \<open>mkdir\<close> and \<open>open\<close>.\<close>

definition add_node :: "world \<Rightarrow> string \<Rightarrow> string \<Rightarrow> node \<Rightarrow> (py_error + unit) \<times> world" where
  "add_node w p key n =
     (case disk w (dirname key) of
        None \<Rightarrow> (Inl (OSError ENOENT p), w)
      | Some (File c m) \<Rightarrow> (Inl (OSError ENOTDIR p), w)
      | Some (Dir es sz m) \<Rightarrow>
          (Inr (),
           w\<lparr>disk := (disk w)(dirname key \<mapsto> Dir (es @ [basename key]) sz (now w),
                                key \<mapsto> n)\<rparr>))"

definition os_mkdir :: "world \<Rightarrow> string \<Rightarrow> (py_error + unit) \<times> world" where
  "os_mkdir w p =
     (let w1 = record_call (OsMkdir p) w in
      if p = [] then (Inl (OSError ENOENT p), w1)
      else if disk w1 (abspath w1 p) \<noteq> None then (Inl (OSError EEXIST p), w1)
      else add_node w1 p (abspath w1 p) (Dir [] 0 (now w1)))"

text \<open>\<open>open(p, 'rb').read()\<close> and \<open>open(p, 'wb').write(content)\<close>.\<close>

definition os_read :: "world \<Rightarrow> string \<Rightarrow> (py_error + bytes) \<times> world" where
  "os_read w p =
     ((case lookup w p of
         None \<Rightarrow> Inl (OSError ENOENT p)
       | Some (File c m) \<Rightarrow> Inr c
       | Some (Dir es sz m) \<Rightarrow> Inl (OSError EISDIR p)),
      record_call (OsRead p) w)"

definition os_write :: "world \<Rightarrow> string \<Rightarrow> bytes \<Rightarrow> (py_error + unit) \<times> world" where
  "os_write w p content =
     (let w1 = record_call (OsWrite p) w in
      if p = [] then (Inl (OSError ENOENT p), w1)
      else
        (case disk w1 (abspath w1 p) of
           Some (Dir es sz m) \<Rightarrow> (Inl (OSError EISDIR p), w1)
         | Some (File c m) \<Rightarrow>
             (Inr (), w1\<lparr>disk := (disk w1)(abspath w1 p \<mapsto> File content (now w1))\<rparr>)
         | None \<Rightarrow> add_node w1 p (abspath w1 p) (File content (now w1))))"

text \<open>
  \<open>os.makedirs(name, exist_ok=True)\<close>, after CPython: create the parent first when it is
  missing, then the directory itself; an error of the final \<open>mkdir\<close> is dropped when the
  directory is there.
\<close>

definition makedirs_split :: "string \<Rightarrow> string \<times> string" where
  "makedirs_split name =
     (if snd (path_split name) = [] then path_split (fst (path_split name))
      else path_split name)"

definition makedirs_leaf :: "world \<Rightarrow> string \<Rightarrow> (py_error + unit) \<times> world" where
  "makedirs_leaf w name =
     (let (r, w1) = os_mkdir w name in
      case r of
        Inr u \<Rightarrow> (Inr (), w1)
      | Inl e \<Rightarrow> (let (d, w2) = os_path_isdir w1 name in
                  if \<not> d then (Inl e, w2) else (Inr (), w2)))"

fun is_FileExistsError :: "py_error \<Rightarrow> bool" where
  "is_FileExistsError (OSError EEXIST p) = True"
| "is_FileExistsError e = False"

function makedirs :: "world \<Rightarrow> string \<Rightarrow> (py_error + unit) \<times> world" where
  "makedirs w name =
     (if fst (makedirs_split name) \<noteq> [] \<and> snd (makedirs_split name) \<noteq> []
      then
        (case os_path_exists w (fst (makedirs_split name)) of
           (True, w1) \<Rightarrow> makedirs_leaf w1 name
         | (False, w1) \<Rightarrow>
             (case makedirs w1 (fst (makedirs_split name)) of
                (Inl e, w2) \<Rightarrow>
                  if is_FileExistsError e
                  then (if snd (makedirs_split name) = ''.'' then (Inr (), w2)
                        else makedirs_leaf w2 name)
                  else (Inl e, w2)
              | (Inr u, w2) \<Rightarrow>
                  if snd (makedirs_split name) = ''.'' then (Inr (), w2)
                  else makedirs_leaf w2 name))
      else makedirs_leaf w name)"
  by pat_completeness auto
termination
proof (relation "measure (\<lambda>(w, name). length name)")
  show "wf (measure (\<lambda>(w, name). length name))"
    by simp
next
  fix w :: world and name :: string and x :: "bool \<times> world" and b :: bool and w1 :: world
  assume nonempty: "fst (makedirs_split name) \<noteq> [] \<and> snd (makedirs_split name) \<noteq> []"
  have strip_le: "length (rstrip_char c s) \<le> length s" for c s
    using length_dropWhile_le [of "\<lambda>x. x = c" "rev s"] by (simp add: rstrip_char_def)
  have head_bound:
    "length (fst (path_split p)) \<le> length (dropWhile (\<lambda>c. c \<noteq> CHR ''/'') (rev p))" for p
    using strip_le [of "CHR ''/''" "rev (dropWhile (\<lambda>c. c \<noteq> CHR ''/'') (rev p))"]
    by (simp add: path_split_def Let_def)
  have head_le: "length (fst (path_split p)) \<le> length p" for p
    using head_bound [of p] length_dropWhile_le [of "\<lambda>c. c \<noteq> CHR ''/''" "rev p"]
    by simp
  have head_less: "length (fst (path_split p)) < length p" if "snd (path_split p) \<noteq> []" for p
  proof -
    let ?t = "takeWhile (\<lambda>c. c \<noteq> CHR ''/'') (rev p)"
    let ?d = "dropWhile (\<lambda>c. c \<noteq> CHR ''/'') (rev p)"
    have "?t \<noteq> []"
      using that by (simp add: path_split_def Let_def)
    then have "0 < length ?t"
      by simp
    moreover have "length ?t + length ?d = length (rev p)"
      by (metis length_append takeWhile_dropWhile_id)
    ultimately have "length ?d < length p"
      by (cases ?t) simp_all
    with head_bound [of p] show ?thesis
      by simp
  qed
  have "length (fst (makedirs_split name)) < length name"
  proof (cases "snd (path_split name) = []")
    case True
    then have "snd (path_split (fst (path_split name))) \<noteq> []"
      using nonempty by (simp add: makedirs_split_def)
    then have "length (fst (path_split (fst (path_split name)))) < length (fst (path_split name))"
      by (rule head_less)
    with head_le [of name] True show ?thesis
      by (simp add: makedirs_split_def)
  next
    case False
    then show ?thesis
      using head_less [of name] by (simp add: makedirs_split_def)
  qed
  then show "((w1, fst (makedirs_split name)), (w, name)) \<in> measure (\<lambda>(w, name). length name)"
    by simp
qed

declare makedirs.simps [simp del]

section \<open>\<open>FileService\<close>\<close>

definition validate_path :: "world \<Rightarrow> string \<Rightarrow> (py_error + string) \<times> world" where
  "validate_path w path =
     (if path = [] \<or> path = ''/'' then (Inr (home_dir w), w)
      else
        let abs_path = abspath w (expanduser w path);
            (found, w1) = os_path_exists w abs_path
        in if \<not> found then (Inl (ValueError (''Path does not exist: '' @ path)), w1)
           else (Inr abs_path, w1))"






definition write_file :: "world \<Rightarrow> string \<Rightarrow> bytes \<Rightarrow> (py_error + bool) \<times> world" where
  "write_file w path content =
     (case makedirs w (dirname path) of
        (Inl e, w1) \<Rightarrow> (Inl e, w1)
      | (Inr u, w1) \<Rightarrow>
          (case os_write w1 path content of
             (Inl e, w2) \<Rightarrow> (Inl e, w2)
           | (Inr u', w2) \<Rightarrow> (Inr True, w2)))"


section \<open>\<open>ADBService\<close>\<close>

record device_info =
  di_serial :: string
  di_model :: string
  di_manufacturer :: string
  di_android_version :: string
  di_state :: string

text \<open>The calls of the bridge, each leaving its mark in the trace.\<close>

definition adb_device_list_call :: "world \<Rightarrow> (py_error + device list) \<times> world" where
  "adb_device_list_call w = (adb_device_list w, record_call AdbDeviceList w)"

definition adb_device_call :: "world \<Rightarrow> string \<Rightarrow> (py_error + device) \<times> world" where
  "adb_device_call w serial = (adb_device w serial, record_call (AdbDevice serial) w)"

definition prop_model :: "world \<Rightarrow> device \<Rightarrow> (py_error + string option) \<times> world" where
  "prop_model w d =
     (dev_prop_model d, record_call (AdbGetprop (dev_serial d) ''ro.product.model'') w)"

definition prop_get :: "world \<Rightarrow> device \<Rightarrow> string \<Rightarrow> string \<Rightarrow> (py_error + string) \<times> world" where
  "prop_get w d key dflt = (dev_prop_get d key dflt, record_call (AdbGetprop (dev_serial d) key) w)"

definition shell :: "world \<Rightarrow> device \<Rightarrow> string \<Rightarrow> (py_error + string) \<times> world" where
  "shell w d cmd = (dev_shell d cmd, record_call (AdbShell (dev_serial d) cmd) w)"

text \<open>
  \<open>device.sync.pull\<close> reads the remote file and writes it to the local path;
  \<open>device.sync.push\<close> reads the local file and sends it.
\<close>

definition sync_pull :: "world \<Rightarrow> device \<Rightarrow> string \<Rightarrow> string \<Rightarrow> (py_error + unit) \<times> world" where
  "sync_pull w d remote_path local_path =
     (let w1 = record_call (AdbSyncPull (dev_serial d) remote_path local_path) w in
      case dev_sync_pull d remote_path of
        Inl e \<Rightarrow> (Inl e, w1)
      | Inr content \<Rightarrow> os_write w1 local_path content)"

definition sync_push :: "world \<Rightarrow> device \<Rightarrow> string \<Rightarrow> string \<Rightarrow> (py_error + unit) \<times> world" where
  "sync_push w d local_path remote_path =
     (let w1 = record_call (AdbSyncPush (dev_serial d) local_path remote_path) w in
      case os_read w1 local_path of
        (Inl e, w2) \<Rightarrow> (Inl e, w2)
      | (Inr content, w2) \<Rightarrow> (dev_sync_push d remote_path content, w2))"

text \<open>The two dictionaries of \<open>get_devices\<close>: the one read from the device, the placeholder.\<close>

definition read_device_info :: "world \<Rightarrow> device \<Rightarrow> (py_error + device_info) \<times> world" where
  "read_device_info w d =
     (case prop_model w d of
        (Inl e, w1) \<Rightarrow> (Inl e, w1)
      | (Inr model, w1) \<Rightarrow>
          (case prop_get w1 d ''ro.product.manufacturer'' ''Unknown'' of
             (Inl e, w2) \<Rightarrow> (Inl e, w2)
           | (Inr manufacturer, w2) \<Rightarrow>
               (case prop_get w2 d ''ro.build.version.release'' ''Unknown'' of
                  (Inl e, w3) \<Rightarrow> (Inl e, w3)
                | (Inr android_version, w3) \<Rightarrow>
                    (Inr \<lparr> di_serial = dev_serial d,
                            di_model = (case model of
                                          None \<Rightarrow> ''Unknown''
                                        | Some m \<Rightarrow> if m = [] then ''Unknown'' else m),
                            di_manufacturer = manufacturer,
                            di_android_version = android_version,
                            di_state = ''device'' \<rparr>,
                     w3))))"

definition unknown_device_info :: "device \<Rightarrow> device_info" where
  "unknown_device_info d =
     \<lparr> di_serial = dev_serial d,
       di_model = ''Unknown'',
       di_manufacturer = ''Unknown'',
       di_android_version = ''Unknown'',
       di_state = ''device'' \<rparr>"

fun get_devices_loop :: "world \<Rightarrow> device list \<Rightarrow> device_info list \<times> world" where
  "get_devices_loop w [] = ([], w)"
| "get_devices_loop w (d # rest) =
     (case read_device_info w d of
        (Inr device_info, w1) \<Rightarrow>
          (case get_devices_loop w1 rest of (devices, w2) \<Rightarrow> (device_info # devices, w2))
      | (Inl e, w1) \<Rightarrow>
          (case get_devices_loop w1 rest of
             (devices, w2) \<Rightarrow> (unknown_device_info d # devices, w2)))"

definition get_devices :: "world \<Rightarrow> (py_error + device_info list) \<times> world" where
  "get_devices w =
     (case adb_device_list_call w of
        (Inl e, w1) \<Rightarrow> (Inr [], w1)
      | (Inr device_list, w1) \<Rightarrow>
          (case get_devices_loop w1 device_list of (devices, w2) \<Rightarrow> (Inr devices, w2)))"

definition get_device :: "world \<Rightarrow> string \<Rightarrow> device option \<times> world" where
  "get_device w serial =
     (case adb_device_call w serial of
        (Inl e, w1) \<Rightarrow> (None, w1)
      | (Inr d, w1) \<Rightarrow> (Some d, w1))"

definition quoted :: "string \<Rightarrow> string" where
  "quoted s = [CHR 0x27] @ s @ [CHR 0x27]"


definition pull_file ::
  "world \<Rightarrow> string \<Rightarrow> string \<Rightarrow> string \<Rightarrow> (py_error + bool) \<times> world" where
  "pull_file w serial remote_path local_path =
     (case get_device w serial of
        (None, w1) \<Rightarrow> (Inl (ValueError (''Device '' @ serial @ '' not found'')), w1)
      | (Some d, w1) \<Rightarrow>
          (case makedirs w1 (dirname local_path) of
             (Inl e, w2) \<Rightarrow> (Inl e, w2)
           | (Inr u, w2) \<Rightarrow>
               (case sync_pull w2 d remote_path local_path of
                  (Inl e, w3) \<Rightarrow> (Inl e, w3)
                | (Inr u', w3) \<Rightarrow> (Inr True, w3))))"

definition push_file ::
  "world \<Rightarrow> string \<Rightarrow> string \<Rightarrow> string \<Rightarrow> (py_error + bool) \<times> world" where
  "push_file w serial local_path remote_path =
     (case get_device w serial of
        (None, w1) \<Rightarrow> (Inl (ValueError (''Device '' @ serial @ '' not found'')), w1)
      | (Some d, w1) \<Rightarrow>
          (case sync_push w1 d local_path remote_path of
             (Inl e, w2) \<Rightarrow> (Inl e, w2)
           | (Inr u, w2) \<Rightarrow> (Inr True, w2)))"

definition exists_command :: "string \<Rightarrow> string" where
  "exists_command path =
     ''test -e '' @ quoted path @ '' && echo '' @ quoted ''exists''
       @ '' || echo '' @ quoted ''not_exists''"

definition file_exists :: "world \<Rightarrow> string \<Rightarrow> string \<Rightarrow> bool \<times> world" where
  "file_exists w serial path =
     (case get_device w serial of
        (None, w1) \<Rightarrow> (False, w1)
      | (Some d, w1) \<Rightarrow>
          (case shell w1 d (exists_command path) of
             (Inl e, w2) \<Rightarrow> (False, w2)
           | (Inr result, w2) \<Rightarrow> (contains (strip result) ''exists'', w2)))"

section \<open>The transfer endpoints\<close>

record TransferRequest =
  source_path :: string
  destination_path :: string
  device_serial :: "string option"

datatype json = JBool bool | JStr string

type_synonym response = "(string \<times> json) list"

text \<open>The error kinds of the specification, as the endpoints raise them.\<close>

definition PathNotFound :: "string \<Rightarrow> py_error" where
  "PathNotFound path = ValueError (''Path does not exist: '' @ path)"

definition MissingDeviceSerial :: py_error where
  "MissingDeviceSerial = HTTPException 400 ''Device serial is required''"

definition LocalSourceNotFound :: "string \<Rightarrow> py_error" where
  "LocalSourceNotFound path = HTTPException 404 (''Source file not found: '' @ path)"

definition RemoteSourceNotFound :: "string \<Rightarrow> py_error" where
  "RemoteSourceNotFound path = HTTPException 404 (''Source file not found on device: '' @ path)"

definition DirectoryNotSupported :: py_error where
  "DirectoryNotSupported = HTTPException 400 ''Directory transfer not supported yet''"

text \<open>
  \<open>str(e)\<close> of an \<open>OSError\<close> with a file name (the name is shown as \<open>repr\<close> shows a
  string without quotes or escapes), and the two \<open>except\<close> clauses of the endpoints.
\<close>

fun errno_str :: "errno \<Rightarrow> string" where
  "errno_str ENOENT = ''[Errno 2] No such file or directory''"
| "errno_str ENOTDIR = ''[Errno 20] Not a directory''"
| "errno_str EISDIR = ''[Errno 21] Is a directory''"
| "errno_str EEXIST = ''[Errno 17] File exists''"

fun transfer_error :: "py_error \<Rightarrow> py_error" where
  "transfer_error (HTTPException code detail) = HTTPException code detail"
| "transfer_error (ValueError msg) = HTTPException 500 (''Error transferring file: '' @ msg)"
| "transfer_error (AdbError msg) = HTTPException 500 (''Error transferring file: '' @ msg)"
| "transfer_error (OSError n p) =
     HTTPException 500 (''Error transferring file: '' @ errno_str n @ '': '' @ quoted p)"

definition no_serial :: "TransferRequest \<Rightarrow> bool" where
  \<comment> \<open>\<open>not request.device_serial\<close>: absent or empty\<close>
  "no_serial request \<longleftrightarrow> device_serial request = None \<or> device_serial request = Some []"

definition transferred :: "TransferRequest \<Rightarrow> response" where
  "transferred request =
     [(''success'', JBool True),
      (''message'', JStr (''File transferred successfully to '' @ destination_path request))]"

definition transfer_mac_to_android ::
  "world \<Rightarrow> TransferRequest \<Rightarrow> (py_error + response) \<times> world" where
  "transfer_mac_to_android w request =
     (if no_serial request then (Inl MissingDeviceSerial, w)
      else
        (case os_path_exists w (source_path request) of
           (False, w1) \<Rightarrow> (Inl (LocalSourceNotFound (source_path request)), w1)
         | (True, w1) \<Rightarrow>
             (case os_path_isdir w1 (source_path request) of
                (True, w2) \<Rightarrow> (Inl DirectoryNotSupported, w2)
              | (False, w2) \<Rightarrow>
                  (case push_file w2 (the (device_serial request)) (source_path request)
                          (destination_path request) of
                     (Inl e, w3) \<Rightarrow> (Inl (transfer_error e), w3)
                   | (Inr ok, w3) \<Rightarrow> (Inr (transferred request), w3)))))"

definition transfer_android_to_mac ::
  "world \<Rightarrow> TransferRequest \<Rightarrow> (py_error + response) \<times> world" where
  "transfer_android_to_mac w request =
     (if no_serial request then (Inl MissingDeviceSerial, w)
      else
        (case file_exists w (the (device_serial request)) (source_path request) of
           (False, w1) \<Rightarrow> (Inl (RemoteSourceNotFound (source_path request)), w1)
         | (True, w1) \<Rightarrow>
             (case pull_file w1 (the (device_serial request)) (source_path request)
                     (destination_path request) of
                (Inl e, w2) \<Rightarrow> (Inl (transfer_error e), w2)
              | (Inr ok, w2) \<Rightarrow> (Inr (transferred request), w2))))"

section \<open>The order of a listing, in the specification's words\<close>


section \<open>A small world to run the code in\<close>

text \<open>The two listing lines of the specification's example.\<close>

definition pictures_line :: string where
  "pictures_line = ''drwxr-xr-x 2 root root 4096 Jan 1 00:00 Pictures''"

definition photo_line :: string where
  "photo_line = ''-rw-r--r-- 1 root root 1234 Jan 1 00:00 photo.jpg''"

text \<open>A listing as the device's \<open>ls -la\<close> prints it, with a two-field date.\<close>

definition sdcard_listing :: string where
  "sdcard_listing =
     ''total 48'' @ [CHR 0x0A]
     @ ''drwxrwx--x 4 root sdcard_rw 4096 2024-01-01 00:00 .'' @ [CHR 0x0A]
     @ ''drwx--x--x 5 root sdcard_rw 4096 2024-01-01 00:00 ..'' @ [CHR 0x0A]
     @ ''-rw-rw---- 1 root sdcard_rw 1234 2024-01-01 00:00 photo.jpg'' @ [CHR 0x0A]
     @ ''drwxrwx--x 2 root sdcard_rw 4096 2024-01-01 00:00 Pictures'' @ [CHR 0x0A]
     @ ''drwxrwx--x 2 root sdcard_rw 4096 2024-01-01 00:00 my music'' @ [CHR 0x0A]"

definition phone :: device where
  "phone =
     \<lparr> dev_serial = ''R58M'',
       dev_prop_model = Inr (Some ''Pixel 7''),
       dev_prop_get = (\<lambda>key dflt.
          if key = ''ro.product.manufacturer'' then Inr ''Google''
          else if key = ''ro.build.version.release'' then Inr ''14''
          else Inr dflt),
       dev_shell = (\<lambda>cmd.
          if cmd = exists_command ''/sdcard/photo.jpg'' then Inr (''exists'' @ [CHR 0x0A])
          else if cmd = exists_command ''/sdcard/missing.jpg''
          then Inr (''not_exists'' @ [CHR 0x0A])
          else if cmd = ''ls -la '' @ quoted ''/sdcard'' then Inr sdcard_listing
          else Inl (AdbError ''shell failed'')),
       dev_sync_pull = (\<lambda>remote_path.
          if remote_path = ''/sdcard/photo.jpg'' then Inr [255, 216, 255]
          else Inl (AdbError ''remote object does not exist'')),
       dev_sync_push = (\<lambda>remote_path content. Inr ()) \<rparr>"

definition offline_phone :: device where
  "offline_phone =
     \<lparr> dev_serial = ''ZY22'',
       dev_prop_model = Inl (AdbError ''device offline''),
       dev_prop_get = (\<lambda>key dflt. Inl (AdbError ''device offline'')),
       dev_shell = (\<lambda>cmd. Inl (AdbError ''device offline'')),
       dev_sync_pull = (\<lambda>remote_path. Inl (AdbError ''device offline'')),
       dev_sync_push = (\<lambda>remote_path content. Inl (AdbError ''device offline'')) \<rparr>"

definition mac :: world where
  "mac =
     \<lparr> disk =
         [''/'' \<mapsto> Dir [''home''] 4096 0,
          ''/home'' \<mapsto> Dir [''u''] 4096 0,
          ''/home/u'' \<mapsto> Dir [''notes.txt'', ''.profile'', ''Docs'', ''broken'', ''apps''] 4096 100,
          ''/home/u/notes.txt'' \<mapsto> File [104, 105] 200,
          ''/home/u/.profile'' \<mapsto> File [] 50,
          ''/home/u/Docs'' \<mapsto> Dir [] 4096 150,
          ''/home/u/apps'' \<mapsto> Dir [] 4096 120],
       cwd = ''/home/u'',
       now = 1000,
       environ_HOME = Some ''/home/u'',
       pw_dir_uid = Some ''/home/u'',
       pw_dir_nam = (\<lambda>name. if name = ''u'' then Some ''/home/u'' else None),
       home_dir = ''/home/u'',
       adb_device_list = Inr [phone, offline_phone],
       adb_device = (\<lambda>serial.
          if serial = ''R58M'' then Inr phone
          else if serial = ''ZY22'' then Inr offline_phone
          else Inl (AdbError ''device not found'')),
       trace = [] \<rparr>"

text \<open>Transfer requests against that world.\<close>

definition push_request :: TransferRequest where
  "push_request =
     \<lparr> source_path = ''/home/u/notes.txt'',
       destination_path = ''/sdcard/notes.txt'',
       device_serial = Some ''R58M'' \<rparr>"

definition pull_request :: TransferRequest where
  "pull_request =
     \<lparr> source_path = ''/sdcard/photo.jpg'',
       destination_path = ''/home/u/dl/new/photo.jpg'',
       device_serial = Some ''R58M'' \<rparr>"

definition missing_request :: TransferRequest where
  "missing_request =
     \<lparr> source_path = ''/sdcard/missing.jpg'',
       destination_path = ''/home/u/missing.jpg'',
       device_serial = Some ''R58M'' \<rparr>"


section \<open>The remote listing parser\<close>

lemma parse_line_total: "startswith line ''total'' \<Longrightarrow> parse_line path line = Inr None"
  by (simp add: parse_line_def)

lemma parse_line_name:
  "parse_line path line = Inr (Some f) \<Longrightarrow> fi_name f \<noteq> ''.'' \<and> fi_name f \<noteq> ''..''"
  by (auto simp: parse_line_def Let_def split: if_splits sum.splits)

lemma parse_lines_names:
  "parse_lines path ls = Inr files \<Longrightarrow> f \<in> set files \<Longrightarrow>
   fi_name f \<noteq> ''.'' \<and> fi_name f \<noteq> ''..''"
proof (induction ls arbitrary: files)
  case Nil
  then show ?case by simp
next
  case (Cons l ls)
  then show ?case
    by (auto split: sum.splits option.splits dest: parse_line_name)
qed

lemma parse_lines_skip:
  "parse_line path line = Inr None \<Longrightarrow>
   parse_lines path (pre @ line # post) = parse_lines path (pre @ post)"
  by (induction pre) (auto split: sum.splits option.splits)

lemma set_sorted_listing: "set (sorted_listing files) = set files"
  by (simp add: sorted_listing_def)

lemma parse_listing_names:
  assumes "parse_listing path output = Inr files" and "f \<in> set files"
  shows "fi_name f \<noteq> ''.'' \<and> fi_name f \<noteq> ''..''"
proof -
  from assms(1) obtain raw where
    raw: "parse_lines path (split_sep (strip output) (CHR 0x0A)) = Inr raw"
    and files: "files = sorted_listing raw"
    by (auto simp: parse_listing_def split: sum.splits)
  from assms(2) files have "f \<in> set raw"
    by (simp add: set_sorted_listing)
  with raw show ?thesis
    by (rule parse_lines_names)
qed

lemma pictures_fields:
  "split pictures_line =
     [''drwxr-xr-x'', ''2'', ''root'', ''root'', ''4096'', ''Jan'', ''1'', ''00:00'', ''Pictures'']"
  by code_simp

lemma photo_fields:
  "split photo_line =
     [''-rw-r--r--'', ''1'', ''root'', ''root'', ''1234'', ''Jan'', ''1'', ''00:00'', ''photo.jpg'']"
  by code_simp

lemma pictures_line_head: "pictures_line \<noteq> [] \<and> \<not> startswith pictures_line ''total''"
  by code_simp

lemma photo_line_head: "photo_line \<noteq> [] \<and> \<not> startswith photo_line ''total''"
  by code_simp

lemma permissions_head:
  "startswith ''drwxr-xr-x'' ''d'' \<and> \<not> startswith ''-rw-r--r--'' ''d''"
  by code_simp

lemma size_1234: "isdigit ''1234'' \<and> py_int ''1234'' = Inr 1234"
  by code_simp

lemma parse_pictures_line:
  "parse_line path pictures_line =
     Inr (Some \<lparr> fi_name = ''00:00 Pictures'', fi_path = path_join path ''00:00 Pictures'',
                 fi_is_directory = True, fi_size = 0, fi_modified = None,
                 fi_permissions = Some ''drwxr-xr-x'', fi_type = ''directory'' \<rparr>)"
  unfolding parse_line_def pictures_fields
  by (simp add: pictures_line_head permissions_head Let_def)

lemma parse_photo_line:
  "parse_line path photo_line =
     Inr (Some \<lparr> fi_name = ''00:00 photo.jpg'', fi_path = path_join path ''00:00 photo.jpg'',
                 fi_is_directory = False, fi_size = 1234, fi_modified = None,
                 fi_permissions = Some ''-rw-r--r--'', fi_type = ''file'' \<rparr>)"
  unfolding parse_line_def photo_fields
  by (simp add: photo_line_head permissions_head size_1234 Let_def)

lemma pictures_lines: "split_sep (strip pictures_line) (CHR 0x0A) = [pictures_line]"
  by code_simp

lemma photo_lines: "split_sep (strip photo_line) (CHR 0x0A) = [photo_line]"
  by code_simp

lemma total_line: "startswith ''total 48'' ''total''"
  by code_simp

text \<open>
  C1, as the code has it. The name of an entry is every field from the eighth on, so
  with the three-field date of the example lines the time of day is part of the name:
  the line for \<open>Pictures\<close> yields a directory of size 0 named \<open>00:00 Pictures\<close>, the line
  for \<open>photo.jpg\<close> a file of size 1234 named \<open>00:00 photo.jpg\<close>. A line that starts
  with \<open>total\<close> adds nothing to the listing, wherever it stands, and no entry of a
  returned listing is named \<open>.\<close> or \<open>..\<close>.
\<close>

theorem remote_listing_parser:
  "parse_listing path pictures_line =
     Inr [\<lparr> fi_name = ''00:00 Pictures'', fi_path = path_join path ''00:00 Pictures'',
            fi_is_directory = True, fi_size = 0, fi_modified = None,
            fi_permissions = Some ''drwxr-xr-x'', fi_type = ''directory'' \<rparr>]
   \<and> parse_listing path photo_line =
     Inr [\<lparr> fi_name = ''00:00 photo.jpg'', fi_path = path_join path ''00:00 photo.jpg'',
            fi_is_directory = False, fi_size = 1234, fi_modified = None,
            fi_permissions = Some ''-rw-r--r--'', fi_type = ''file'' \<rparr>]
   \<and> parse_line path ''total 48'' = Inr None
   \<and> (startswith line ''total'' \<longrightarrow>
        parse_lines path (pre @ line # post) = parse_lines path (pre @ post))
   \<and> (parse_listing path output = Inr files \<longrightarrow>
        (\<forall>f \<in> set files. fi_name f \<noteq> ''.'' \<and> fi_name f \<noteq> ''..''))"
proof (intro conjI impI ballI)
  show "parse_listing path pictures_line =
     Inr [\<lparr> fi_name = ''00:00 Pictures'', fi_path = path_join path ''00:00 Pictures'',
            fi_is_directory = True, fi_size = 0, fi_modified = None,
            fi_permissions = Some ''drwxr-xr-x'', fi_type = ''directory'' \<rparr>]"
    unfolding parse_listing_def pictures_lines
    by (simp add: parse_pictures_line sorted_listing_def)
  show "parse_listing path photo_line =
     Inr [\<lparr> fi_name = ''00:00 photo.jpg'', fi_path = path_join path ''00:00 photo.jpg'',
            fi_is_directory = False, fi_size = 1234, fi_modified = None,
            fi_permissions = Some ''-rw-r--r--'', fi_type = ''file'' \<rparr>]"
    unfolding parse_listing_def photo_lines
    by (simp add: parse_photo_line sorted_listing_def)
  show "parse_line path ''total 48'' = Inr None"
    using total_line by (rule parse_line_total)
next
  assume "startswith line ''total''"
  then have "parse_line path line = Inr None"
    by (rule parse_line_total)
  then show "parse_lines path (pre @ line # post) = parse_lines path (pre @ post)"
    by (rule parse_lines_skip)
next
  fix f
  assume "parse_listing path output = Inr files" and "f \<in> set files"
  then have "fi_name f \<noteq> ''.'' \<and> fi_name f \<noteq> ''..''"
    by (rule parse_listing_names)
  then show "fi_name f \<noteq> ''.''" and "fi_name f \<noteq> ''..''"
    by simp_all
qed

lemma sdcard_listing_parsed:
  "parse_listing ''/sdcard'' sdcard_listing =
     Inr [\<lparr> fi_name = ''my music'', fi_path = ''/sdcard/my music'', fi_is_directory = True,
            fi_size = 0, fi_modified = None, fi_permissions = Some ''drwxrwx--x'',
            fi_type = ''directory'' \<rparr>,
          \<lparr> fi_name = ''Pictures'', fi_path = ''/sdcard/Pictures'', fi_is_directory = True,
            fi_size = 0, fi_modified = None, fi_permissions = Some ''drwxrwx--x'',
            fi_type = ''directory'' \<rparr>,
          \<lparr> fi_name = ''photo.jpg'', fi_path = ''/sdcard/photo.jpg'', fi_is_directory = False,
            fi_size = 1234, fi_modified = None, fi_permissions = Some ''-rw-rw----'',
            fi_type = ''file'' \<rparr>]"
  by code_simp

theorem remote_listing_parser_witness:
  "startswith ''total 48'' ''total''
   \<and> parse_lines ''/sdcard'' ([] @ ''total 48'' # [photo_line])
       = parse_lines ''/sdcard'' ([] @ [photo_line])
   \<and> (\<exists>files. parse_listing ''/sdcard'' sdcard_listing = Inr files
        \<and> files \<noteq> []
        \<and> (\<forall>f \<in> set files. fi_name f \<noteq> ''.'' \<and> fi_name f \<noteq> ''..''))"
  using remote_listing_parser
          [of "''/sdcard''" "''total 48''" "[]" "[photo_line]" sdcard_listing]
        total_line sdcard_listing_parsed
  by auto

text \<open>The example line of the specification does not yield the name \<open>Pictures\<close>.\<close>

theorem remote_listing_name_counterexample:
  "parse_listing ''/sdcard'' ''drwxr-xr-x 2 root root 4096 Jan 1 00:00 Pictures'' =
     Inr [\<lparr> fi_name = ''00:00 Pictures'', fi_path = ''/sdcard/00:00 Pictures'',
            fi_is_directory = True, fi_size = 0, fi_modified = None,
            fi_permissions = Some ''drwxr-xr-x'', fi_type = ''directory'' \<rparr>]
   \<and> ''00:00 Pictures'' \<noteq> ''Pictures''"
  by code_simp

section \<open>Operating system calls leave the disk as it is, or say what they change\<close>

lemma lookup_record_call [simp]: "lookup (record_call c w) p = lookup w p"
  by (simp add: lookup_def record_call_def abspath_def)

lemma record_call_twice:
  "record_call c2 (record_call c1 w) = w\<lparr>trace := trace w @ [c1, c2]\<rparr>"
  by (simp add: record_call_def)

lemma os_path_exists_eq:
  "os_path_exists w p = (lookup w p \<noteq> None, record_call (OsStat p) w)"
  by (simp add: os_path_exists_def os_stat_def split: option.splits node.splits)

lemma os_path_isdir_eq:
  "os_path_isdir w p =
     ((case lookup w p of Some (Dir es sz m) \<Rightarrow> True | _ \<Rightarrow> False), record_call (OsStat p) w)"
  by (simp add: os_path_isdir_def os_stat_def split: option.splits node.splits)

section \<open>The transfer endpoints: preconditions and result\<close>

text \<open>
  C8. A transfer request without a device serial (absent or empty) fails with
  \<open>MissingDeviceSerial\<close> in both directions, and the world, its trace of calls
  included, is as before: no filesystem or device call was made.
\<close>

theorem missing_serial_rejected:
  "no_serial request \<Longrightarrow>
     transfer_mac_to_android w request = (Inl MissingDeviceSerial, w)
     \<and> transfer_android_to_mac w request = (Inl MissingDeviceSerial, w)"
  by (simp add: transfer_mac_to_android_def transfer_android_to_mac_def)

theorem missing_serial_rejected_witness:
  "no_serial (push_request\<lparr>device_serial := Some []\<rparr>)
   \<and> no_serial (pull_request\<lparr>device_serial := None\<rparr>)
   \<and> transfer_mac_to_android mac (push_request\<lparr>device_serial := Some []\<rparr>)
       = (Inl (HTTPException 400 ''Device serial is required''), mac)
   \<and> transfer_android_to_mac mac (pull_request\<lparr>device_serial := None\<rparr>)
       = (Inl (HTTPException 400 ''Device serial is required''), mac)"
  using missing_serial_rejected [of "push_request\<lparr>device_serial := Some []\<rparr>" mac]
        missing_serial_rejected [of "pull_request\<lparr>device_serial := None\<rparr>" mac]
  by (simp add: no_serial_def MissingDeviceSerial_def)





text \<open>
  C9, as the code has it. A successful transfer, in either direction, answers with
  exactly two fields: \<open>success\<close>, which is true, and \<open>message\<close>, the text
  \<open>File transferred successfully to\<close> followed by the destination path as the request
  gave it.
\<close>

theorem transfer_result:
  "(fst (transfer_mac_to_android w request) = Inr r \<longrightarrow>
      r = [(''success'', JBool True),
           (''message'', JStr (''File transferred successfully to ''
                                @ destination_path request))])
   \<and> (fst (transfer_android_to_mac w request) = Inr r' \<longrightarrow>
      r' = [(''success'', JBool True),
            (''message'', JStr (''File transferred successfully to ''
                                 @ destination_path request))])"
  by (auto simp: transfer_mac_to_android_def transfer_android_to_mac_def transferred_def
           split: if_splits prod.splits bool.splits sum.splits)

lemma push_succeeds:
  "fst (transfer_mac_to_android mac push_request) =
     Inr [(''success'', JBool True),
          (''message'', JStr ''File transferred successfully to /sdcard/notes.txt'')]"
  by code_simp

lemma pull_succeeds:
  "fst (transfer_android_to_mac mac pull_request) =
     Inr [(''success'', JBool True),
          (''message'', JStr ''File transferred successfully to /home/u/dl/new/photo.jpg'')]"
  by code_simp

theorem transfer_result_witness:
  "fst (transfer_mac_to_android mac push_request) =
     Inr [(''success'', JBool True),
          (''message'', JStr ''File transferred successfully to /sdcard/notes.txt'')]
   \<and> [(''success'', JBool True),
       (''message'', JStr ''File transferred successfully to /sdcard/notes.txt'')]
     = [(''success'', JBool True),
        (''message'', JStr (''File transferred successfully to ''
                             @ destination_path push_request))]"
  using transfer_result
          [of mac push_request
              "[(''success'', JBool True),
                (''message'', JStr ''File transferred successfully to /sdcard/notes.txt'')]"]
        push_succeeds
  by simp

text \<open>The result of a successful transfer has no field that holds the destination path.\<close>

theorem transfer_result_counterexample:
  "fst (transfer_mac_to_android mac push_request) =
     Inr [(''success'', JBool True),
          (''message'', JStr ''File transferred successfully to /sdcard/notes.txt'')]
   \<and> map_of [(''success'', JBool True),
              (''message'', JStr ''File transferred successfully to /sdcard/notes.txt'')]
        ''destinationPath'' = None
   \<and> JStr (destination_path push_request)
       \<notin> set (map snd [(''success'', JBool True),
             (''message'', JStr ''File transferred successfully to /sdcard/notes.txt'')])"
  by code_simp

section \<open>Device enumeration\<close>

lemma read_device_info_world:
  "fst (read_device_info w d) = fst (read_device_info w' d)"
  by (simp add: read_device_info_def prop_model_def prop_get_def split: sum.splits)

lemma read_device_info_fails:
  "dev_prop_model d = Inl e
   \<or> dev_prop_get d ''ro.product.manufacturer'' ''Unknown'' = Inl e
   \<or> dev_prop_get d ''ro.build.version.release'' ''Unknown'' = Inl e
   \<Longrightarrow> \<exists>e'. fst (read_device_info w d) = Inl e'"
  by (auto simp: read_device_info_def prop_model_def prop_get_def split: sum.splits)

lemma get_devices_loop_length: "length (fst (get_devices_loop w ds)) = length ds"
  by (induction ds arbitrary: w) (simp_all add: case_prod_beta split: sum.splits)

lemma get_devices_loop_serials:
  "map di_serial (fst (get_devices_loop w ds)) = map dev_serial ds"
proof (induction ds arbitrary: w)
  case Nil
  then show ?case by simp
next
  case (Cons d ds)
  have "di_serial i = dev_serial d" if "fst (read_device_info w d) = Inr i" for i
    using that
    by (auto simp: read_device_info_def prop_model_def prop_get_def split: sum.splits)
  with Cons.IH show ?case
    by (simp add: unknown_device_info_def case_prod_beta split: sum.splits)
qed

lemma get_devices_loop_unknown:
  "i < length ds \<Longrightarrow> fst (read_device_info w (ds ! i)) = Inl e \<Longrightarrow>
   fst (get_devices_loop w ds) ! i = unknown_device_info (ds ! i)"
proof (induction ds arbitrary: w i)
  case Nil
  then show ?case by simp
next
  case (Cons d ds)
  show ?case
  proof (cases i)
    case 0
    with Cons.prems show ?thesis
      by (simp add: case_prod_beta split: sum.splits)
  next
    case (Suc j)
    obtain r w1 where step: "read_device_info w d = (r, w1)"
      by (cases "read_device_info w d")
    from Cons.prems Suc have "j < length ds" and "fst (read_device_info w1 (ds ! j)) = Inl e"
      using read_device_info_world [of w1 "ds ! j" w] by simp_all
    then have "fst (get_devices_loop w1 ds) ! j = unknown_device_info (ds ! j)"
      by (rule Cons.IH)
    with step Suc show ?thesis
      by (simp add: case_prod_beta split: sum.splits)
  qed
qed

text \<open>
  C5. \<open>get_devices\<close> always returns a list. When listing the devices fails, the list
  is empty. Otherwise it has one entry for each device, in order and under its serial,
  and a device one of whose three property reads fails is there with \<open>Unknown\<close> as its
  model, manufacturer and Android version.
\<close>

theorem get_devices_never_raises:
  "(\<exists>devices. fst (get_devices w) = Inr devices)
   \<and> (adb_device_list w = Inl e \<longrightarrow> fst (get_devices w) = Inr [])
   \<and> (adb_device_list w = Inr ds \<longrightarrow>
        (\<exists>devices. fst (get_devices w) = Inr devices
           \<and> map di_serial devices = map dev_serial ds
           \<and> (\<forall>i < length ds.
                 (dev_prop_model (ds ! i) = Inl e'
                  \<or> dev_prop_get (ds ! i) ''ro.product.manufacturer'' ''Unknown'' = Inl e'
                  \<or> dev_prop_get (ds ! i) ''ro.build.version.release'' ''Unknown'' = Inl e')
                 \<longrightarrow> devices ! i =
                       \<lparr> di_serial = dev_serial (ds ! i),
                         di_model = ''Unknown'',
                         di_manufacturer = ''Unknown'',
                         di_android_version = ''Unknown'',
                         di_state = ''device'' \<rparr>)))"
proof (intro conjI impI)
  show "\<exists>devices. fst (get_devices w) = Inr devices"
    by (simp add: get_devices_def adb_device_list_call_def split: sum.splits prod.splits)
  show "fst (get_devices w) = Inr []" if "adb_device_list w = Inl e"
    using that by (simp add: get_devices_def adb_device_list_call_def)
next
  assume listed: "adb_device_list w = Inr ds"
  let ?w1 = "record_call AdbDeviceList w"
  let ?devices = "fst (get_devices_loop ?w1 ds)"
  have result: "fst (get_devices w) = Inr ?devices"
    using listed by (simp add: get_devices_def adb_device_list_call_def split: prod.splits)
  have serials: "map di_serial ?devices = map dev_serial ds"
    by (rule get_devices_loop_serials)
  have placeholder: "?devices ! i = unknown_device_info (ds ! i)"
    if "i < length ds"
      and "dev_prop_model (ds ! i) = Inl e'
           \<or> dev_prop_get (ds ! i) ''ro.product.manufacturer'' ''Unknown'' = Inl e'
           \<or> dev_prop_get (ds ! i) ''ro.build.version.release'' ''Unknown'' = Inl e'" for i
  proof -
    from that(2) obtain e'' where "fst (read_device_info ?w1 (ds ! i)) = Inl e''"
      using read_device_info_fails [of "ds ! i" e' ?w1] by blast
    with that(1) show ?thesis
      by (rule get_devices_loop_unknown)
  qed
  show "\<exists>devices. fst (get_devices w) = Inr devices
           \<and> map di_serial devices = map dev_serial ds
           \<and> (\<forall>i < length ds.
                 (dev_prop_model (ds ! i) = Inl e'
                  \<or> dev_prop_get (ds ! i) ''ro.product.manufacturer'' ''Unknown'' = Inl e'
                  \<or> dev_prop_get (ds ! i) ''ro.build.version.release'' ''Unknown'' = Inl e')
                 \<longrightarrow> devices ! i =
                       \<lparr> di_serial = dev_serial (ds ! i),
                         di_model = ''Unknown'',
                         di_manufacturer = ''Unknown'',
                         di_android_version = ''Unknown'',
                         di_state = ''device'' \<rparr>)"
    using result serials placeholder
    by (intro exI [of _ ?devices]) (simp add: unknown_device_info_def)
qed

lemma mac_devices:
  "adb_device_list mac = Inr [phone, offline_phone]
   \<and> dev_prop_model ([phone, offline_phone] ! 1) = Inl (AdbError ''device offline'')
   \<and> dev_serial ([phone, offline_phone] ! 1) = ''ZY22''"
  by (simp add: mac_def offline_phone_def)

lemma no_adb_server:
  "adb_device_list (mac\<lparr>adb_device_list := Inl (AdbError ''adb server not running'')\<rparr>)
     = Inl (AdbError ''adb server not running'')"
  by simp

theorem get_devices_never_raises_witness:
  "adb_device_list mac = Inr [phone, offline_phone]
   \<and> dev_prop_model ([phone, offline_phone] ! 1) = Inl (AdbError ''device offline'')
   \<and> (\<exists>devices. fst (get_devices mac) = Inr devices
         \<and> map di_serial devices = [''R58M'', ''ZY22'']
         \<and> devices ! 1 =
             \<lparr> di_serial = ''ZY22'', di_model = ''Unknown'', di_manufacturer = ''Unknown'',
               di_android_version = ''Unknown'', di_state = ''device'' \<rparr>)
   \<and> fst (get_devices (mac\<lparr>adb_device_list := Inl (AdbError ''adb server not running'')\<rparr>))
       = Inr []"
proof -
  have serials: "map dev_serial [phone, offline_phone] = [''R58M'', ''ZY22'']"
    by (simp add: phone_def offline_phone_def)
  from get_devices_never_raises
         [of mac "AdbError ''x''" "[phone, offline_phone]" "AdbError ''device offline''"]
       mac_devices
  obtain devices where
    "fst (get_devices mac) = Inr devices"
    "map di_serial devices = map dev_serial [phone, offline_phone]"
    "devices ! 1 =
       \<lparr> di_serial = ''ZY22'', di_model = ''Unknown'', di_manufacturer = ''Unknown'',
         di_android_version = ''Unknown'', di_state = ''device'' \<rparr>"
    by auto
  moreover have
    "fst (get_devices (mac\<lparr>adb_device_list := Inl (AdbError ''adb server not running'')\<rparr>))
       = Inr []"
    using get_devices_never_raises
            [of "mac\<lparr>adb_device_list := Inl (AdbError ''adb server not running'')\<rparr>"
                "AdbError ''adb server not running''"]
          no_adb_server
    by blast
  ultimately show ?thesis
    using mac_devices serials by auto
qed

section \<open>Path validation\<close>

lemma isabs_normpath: "isabs q \<Longrightarrow> isabs (normpath q)"
  by (auto simp: isabs_def normpath_def startswith_def Let_def)

lemma isabs_path_join: "isabs a \<Longrightarrow> isabs (path_join a b)"
  by (cases a) (auto simp: isabs_def path_join_def startswith_def)

lemma isabs_abspath: "isabs (cwd w) \<Longrightarrow> isabs (abspath w p)"
  by (simp add: abspath_def isabs_normpath isabs_path_join)

text \<open>
  C6. The empty path and \<open>/\<close> validate to the home directory. Every other path is
  expanded (\<open>~\<close>) and made absolute: when nothing is on disk at that place validation
  fails with \<open>PathNotFound\<close>, and otherwise it returns that absolute path, which
  starts with a slash as the working directory does.
\<close>

theorem validate_path_spec:
  "fst (validate_path w []) = Inr (home_dir w)
   \<and> fst (validate_path w ''/'') = Inr (home_dir w)
   \<and> (path \<noteq> [] \<and> path \<noteq> ''/'' \<longrightarrow>
        (lookup w (abspath w (expanduser w path)) = None \<longrightarrow>
           fst (validate_path w path) = Inl (PathNotFound path))
        \<and> (lookup w (abspath w (expanduser w path)) \<noteq> None \<longrightarrow>
           fst (validate_path w path) = Inr (abspath w (expanduser w path))
           \<and> (isabs (cwd w) \<longrightarrow> isabs (abspath w (expanduser w path)))))"
  by (auto simp: validate_path_def os_path_exists_eq PathNotFound_def Let_def isabs_abspath)

lemma mac_paths:
  "abspath mac (expanduser mac ''~/Docs/../notes.txt'') = ''/home/u/notes.txt''
   \<and> lookup mac ''/home/u/notes.txt'' \<noteq> None
   \<and> lookup mac (abspath mac (expanduser mac ''~u/nothing'')) = None
   \<and> isabs (cwd mac)"
  by code_simp

theorem validate_path_spec_witness:
  "''~/Docs/../notes.txt'' \<noteq> [] \<and> ''~/Docs/../notes.txt'' \<noteq> ''/''
   \<and> lookup mac (abspath mac (expanduser mac ''~/Docs/../notes.txt'')) \<noteq> None
   \<and> isabs (cwd mac)
   \<and> fst (validate_path mac ''~/Docs/../notes.txt'') = Inr ''/home/u/notes.txt''
   \<and> isabs ''/home/u/notes.txt''
   \<and> lookup mac (abspath mac (expanduser mac ''~u/nothing'')) = None
   \<and> fst (validate_path mac ''~u/nothing'') = Inl (ValueError ''Path does not exist: ~u/nothing'')
   \<and> fst (validate_path mac ''/'') = Inr ''/home/u''"
proof -
  have home: "home_dir mac = ''/home/u''"
    by code_simp
  show ?thesis
    using validate_path_spec [of mac "''~/Docs/../notes.txt''"]
          validate_path_spec [of mac "''~u/nothing''"]
          mac_paths home
    by (simp add: PathNotFound_def)
qed

section \<open>Writing a file\<close>

lemma makedirs_empty:
  "makedirs w [] =
     (Inl (OSError ENOENT []), w\<lparr>trace := trace w @ [OsMkdir [], OsStat []]\<rparr>)"
proof -
  have split: "makedirs_split [] = ([], [])"
    by (simp add: makedirs_split_def path_split_def)
  have "makedirs w [] = makedirs_leaf w []"
    by (simp add: makedirs.simps [of w "[]"] split)
  also have "\<dots> = (Inl (OSError ENOENT []), w\<lparr>trace := trace w @ [OsMkdir [], OsStat []]\<rparr>)"
    by (simp add: makedirs_leaf_def os_mkdir_def os_path_isdir_eq record_call_twice lookup_def)
  finally show ?thesis .
qed

lemma dirname_bare: "CHR ''/'' \<notin> set p \<Longrightarrow> dirname p = []"
proof -
  assume "CHR ''/'' \<notin> set p"
  then have "dropWhile (\<lambda>c. c \<noteq> CHR ''/'') (rev p) = []"
    by (auto simp: dropWhile_eq_Nil_conv)
  then show ?thesis
    by (simp add: dirname_def path_split_def)
qed

text \<open>
  C10 at a bare file name. \<open>os.path.dirname\<close> of \<open>notes.txt\<close> is the empty string, and
  \<open>os.makedirs\<close> of the empty string raises: \<open>write_file\<close> fails with
  \<open>FileNotFoundError\<close> in every world, whatever the content, after one \<open>mkdir\<close> and
  one \<open>stat\<close> and before the file is opened.
\<close>

theorem write_file_bare_filename:
  "write_file w ''notes.txt'' content =
     (Inl (OSError ENOENT []), w\<lparr>trace := trace w @ [OsMkdir [], OsStat []]\<rparr>)"
proof -
  have "dirname ''notes.txt'' = []"
    by (rule dirname_bare) simp
  then show ?thesis
    by (simp add: write_file_def makedirs_empty)
qed

text \<open>With a directory in the path the same write succeeds and creates it.\<close>

lemma write_file_with_directory:
  "fst (write_file mac ''/home/u/new/a.txt'' [1, 2, 3]) = Inr True
   \<and> disk (snd (write_file mac ''/home/u/new/a.txt'' [1, 2, 3])) ''/home/u/new''
       = Some (Dir [''a.txt''] 0 1000)
   \<and> disk (snd (write_file mac ''/home/u/new/a.txt'' [1, 2, 3])) ''/home/u/new/a.txt''
       = Some (File [1, 2, 3] 1000)"
  by code_simp

text \<open>The transfer to the local machine meets the same error through \<open>pull_file\<close>.\<close>

lemma pull_to_bare_filename:
  "fst (transfer_android_to_mac mac (pull_request\<lparr>destination_path := ''photo.jpg''\<rparr>)) =
     Inl (HTTPException 500
            (''Error transferring file: [Errno 2] No such file or directory: '' @ quoted []))"
  by code_simp

section \<open>The remote existence test\<close>

lemma not_exists_contains_exists: "contains (strip (''not_exists'' @ [CHR 0x0A])) ''exists''"
  by code_simp

lemma file_exists_on_not_exists:
  assumes "adb_device w serial = Inr d"
    and "dev_shell d (exists_command path) = Inr (''not_exists'' @ [CHR 0x0A])"
  shows "fst (file_exists w serial path)"
  using assms not_exists_contains_exists
  by (simp add: file_exists_def get_device_def adb_device_call_def shell_def)

text \<open>
  C3 at a remote path that does not exist. The device answers the existence test with
  \<open>not_exists\<close>; \<open>file_exists\<close> looks for the text \<open>exists\<close> in that answer, finds it
  and returns true. The transfer goes on to \<open>pull_file\<close>, the pull is attempted and
  fails, and the request ends in error 500 instead of \<open>SourceNotFound\<close>.
\<close>

theorem missing_remote_source_is_pulled:
  "dev_shell phone (exists_command (source_path missing_request))
     = Inr (''not_exists'' @ [CHR 0x0A])
   \<and> fst (file_exists mac ''R58M'' (source_path missing_request)) = True
   \<and> fst (transfer_android_to_mac mac missing_request)
       = Inl (HTTPException 500 ''Error transferring file: remote object does not exist'')
   \<and> fst (transfer_android_to_mac mac missing_request)
       \<noteq> Inl (RemoteSourceNotFound (source_path missing_request))
   \<and> AdbSyncPull ''R58M'' ''/sdcard/missing.jpg'' ''/home/u/missing.jpg''
       \<in> set (trace (snd (transfer_android_to_mac mac missing_request)))"
  by code_simp

section \<open>Listings\<close>










lemma lookup_trace [simp]: "lookup (w\<lparr>trace := t\<rparr>) p = lookup w p"
  by (simp add: lookup_def abspath_def)







section \<open>Which operations validate their path\<close>








end
